theory Spec2Isabelle
  imports Main
begin

section \<open>JavaScript values, faults and string conversion\<close>

text \<open>
  The values that reach the tool handlers are parsed JSON, plus \<open>undefined\<close> for an
  absent argument object or an absent property. A number is identified by the text
  JavaScript prints for it (\<open>JNum ''30000''\<close>), so that template literals can be
  modelled without floating point. An object is its list of own properties.
\<close>

datatype jsval =
    JUndefined
  | JNull
  | JBool bool
  | JNum string
  | JStr string
  | JArr "jsval list"
  | JObj "(string \<times> jsval) list"

text \<open>
  A fault is a thrown \<open>Error\<close> object: its \<open>name\<close> and its \<open>message\<close>. The handlers of
  this repository raise nothing else (the runtime's \<open>TypeError\<close>s).
\<close>

datatype fault = ErrorObject string string

definition TypeError :: "string \<Rightarrow> fault" where
  "TypeError msg = ErrorObject ''TypeError'' msg"

text \<open>\<open>String(error)\<close> on an \<open>Error\<close> object, that is \<open>Error.prototype.toString\<close>.\<close>

fun String :: "fault \<Rightarrow> string" where
  "String (ErrorObject n msg) =
     (if n = [] then msg else if msg = [] then n else n @ '': '' @ msg)"

definition apostrophe :: string where
  "apostrophe = [CHR 0x27]"

definition quote :: "string \<Rightarrow> string" where
  "quote s = apostrophe @ s @ apostrophe"

fun join_commas :: "string list \<Rightarrow> string" where
  "join_commas [] = []"
| "join_commas [s] = s"
| "join_commas (s # t # ts) = s @ '','' @ join_commas (t # ts)"

text \<open>
  \<open>ToString\<close>, as a template literal \<open>`${v}`\<close> applies it. An array is joined with commas,
  \<open>null\<close> and \<open>undefined\<close> elements printing as the empty string. A parsed JSON object
  prints as \<open>[object Object]\<close> unless it has an own property \<open>toString\<close>: that property
  is not callable, \<open>valueOf\<close> gives no primitive, and the conversion throws.
\<close>

fun ToString :: "jsval \<Rightarrow> fault + string"
  and ToString_elems :: "jsval list \<Rightarrow> fault + string list" where
  "ToString JUndefined = Inr ''undefined''"
| "ToString JNull = Inr ''null''"
| "ToString (JBool b) = Inr (if b then ''true'' else ''false'')"
| "ToString (JNum s) = Inr s"
| "ToString (JStr s) = Inr s"
| "ToString (JArr xs) =
     (case ToString_elems xs of Inl e \<Rightarrow> Inl e | Inr ss \<Rightarrow> Inr (join_commas ss))"
| "ToString (JObj kvs) =
     (if ''toString'' \<in> set (map fst kvs)
      then Inl (TypeError ''Cannot convert object to primitive value'')
      else Inr ''[object Object]'')"
| "ToString_elems [] = Inr []"
| "ToString_elems (x # xs) =
     (case (if x = JUndefined \<or> x = JNull then Inr [] else ToString x) of
        Inl e \<Rightarrow> Inl e
      | Inr s \<Rightarrow> (case ToString_elems xs of Inl e \<Rightarrow> Inl e | Inr ss \<Rightarrow> Inr (s # ss)))"

text \<open>JavaScript truthiness of a value (\<open>if (v)\<close>, \<open>v ? a : b\<close>).\<close>

fun truthy :: "jsval \<Rightarrow> bool" where
  "truthy JUndefined = False"
| "truthy JNull = False"
| "truthy (JBool b) = b"
| "truthy (JNum s) = (s \<noteq> ''0'' \<and> s \<noteq> ''NaN'')"
| "truthy (JStr s) = (s \<noteq> [])"
| "truthy (JArr xs) = True"
| "truthy (JObj kvs) = True"

text \<open>The nullish coalescing operator \<open>v ?? d\<close>.\<close>

fun nullish_or :: "jsval \<Rightarrow> jsval \<Rightarrow> jsval" where
  "nullish_or JUndefined d = d"
| "nullish_or JNull d = d"
| "nullish_or v d = v"

text \<open>
  Reading a property \<open>params.k\<close>, for the property names the tools read (none of them is
  inherited from a prototype): it throws on \<open>undefined\<close> and \<open>null\<close>, and gives
  \<open>undefined\<close> where the property is absent.
\<close>

fun get_prop :: "jsval \<Rightarrow> string \<Rightarrow> fault + jsval" where
  "get_prop JUndefined k =
     Inl (TypeError (''Cannot read properties of undefined (reading '' @ quote k @ '')''))"
| "get_prop JNull k =
     Inl (TypeError (''Cannot read properties of null (reading '' @ quote k @ '')''))"
| "get_prop (JObj kvs) k = Inr (case map_of kvs k of None \<Rightarrow> JUndefined | Some v \<Rightarrow> v)"
| "get_prop v k = Inr JUndefined"

section \<open>Tools (types.ts)\<close>

datatype ToolCapability =
    Core | History | Console | Dialogs | Files | Keyboard | Network
  | Pdf | Screenshot | Tabs | Testing | Vision | Wait

datatype tool_type = ReadOnly | Destructive

text \<open>
  The input schemas of the tools are \<open>z.object\<close>s whose fields are \<open>z.string()\<close>,
  \<open>z.number()\<close> or \<open>z.boolean()\<close>, possibly \<open>.optional()\<close>, each with a description.
\<close>

datatype ztype = ZString | ZNumber | ZBoolean

record zfield =
  fieldName :: string
  fieldType :: ztype
  isOptional :: bool
  describe :: string

type_synonym zobject = "zfield list"

record ToolSchema =
  name :: string
  title :: string
  description :: string
  inputSchema :: zobject
  toolType :: tool_type

text \<open>
  A content item: \<open>{type: 'text', text}\<close> or \<open>{type: 'image', data, mimeType}\<close>. The text of
  a text item is \<open>None\<close> where the source stores \<open>undefined\<close> there.
\<close>

datatype ContentItem =
    TextContent "string option"
  | ImageContent string string

text \<open>
  What an action resolves to: \<open>undefined\<close>, or an object whose \<open>content\<close> is absent or an
  array of items.
\<close>

datatype ToolActionResult = NoResult | ActionResult "ContentItem list option"

text \<open>
  The calls a handler makes on the execution context, in order. The context that
  \<open>createConnection\<close> builds is a mock: every call returns at once, with a fixed value, so
  an asynchronous function is described by the calls it makes and by how it settles.
\<close>

datatype ctx_call =
    EnsureTab
  | TabNavigate jsval
  | PageClick jsval
  | PageFill jsval jsval
  | PageScreenshot jsval
  | PageWaitForSelector jsval jsval
  | PageGoBack
  | PageTextContent jsval
  | PageEvaluate jsval
  | NewPage
  | NewPageGoto jsval
  | CloseTab jsval

type_synonym 'a async = "ctx_call list \<times> (fault + 'a)"

record ToolResult =
  code :: "string list"
  action :: "ToolActionResult async option"
  captureSnapshot :: bool
  waitForNetwork :: bool

record Tool =
  capability :: ToolCapability
  schema :: ToolSchema
  handle :: "jsval \<Rightarrow> ToolResult async"

section \<open>Asynchronous functions over the mock context\<close>

definition resolve :: "'a \<Rightarrow> 'a async" where
  "resolve a = ([], Inr a)"

definition call :: "ctx_call \<Rightarrow> unit async" where
  "call c = ([c], Inr ())"

text \<open>Evaluating an expression that may throw, inside an asynchronous function.\<close>

definition attempt :: "fault + 'a \<Rightarrow> 'a async" where
  "attempt r = ([], r)"

text \<open>Sequencing (\<open>await\<close>, \<open>;\<close>): a fault ends the function, later calls are not made.\<close>

definition bind_async :: "'a async \<Rightarrow> ('a \<Rightarrow> 'b async) \<Rightarrow> 'b async" where
  "bind_async m f =
     (case m of
        (cs, Inl e) \<Rightarrow> (cs, Inl e)
      | (cs, Inr a) \<Rightarrow> (case f a of (cs', r) \<Rightarrow> (cs @ cs', r)))"

text \<open>\<open>try { body } catch (error) { return handler(error) }\<close>\<close>

definition try_catch :: "'a async \<Rightarrow> (fault \<Rightarrow> 'a) \<Rightarrow> 'a async" where
  "try_catch body handler =
     (case body of
        (cs, Inl e) \<Rightarrow> (cs, Inr (handler e))
      | (cs, Inr r) \<Rightarrow> (cs, Inr r))"

section \<open>The tools (tools/search.ts)\<close>

definition navigate :: "bool \<Rightarrow> Tool" where
  "navigate snapshot = \<lparr>
     capability = Core,
     schema = \<lparr>name = ''browser_navigate'', title = ''Navigate to a URL'',
       description = ''Navigate to a URL'',
       inputSchema = [\<lparr>fieldName = ''url'', fieldType = ZString, isOptional = False,
         describe = ''The URL to navigate to''\<rparr>],
       toolType = Destructive\<rparr>,
     handle = (\<lambda>params.
       bind_async (call EnsureTab) (\<lambda>_.
       bind_async (attempt (get_prop params ''url'')) (\<lambda>url.
       bind_async (call (TabNavigate url)) (\<lambda>_.
       bind_async (attempt (ToString url)) (\<lambda>s.
       resolve \<lparr>code = [''await page.goto('' @ quote s @ '');''], action = None,
         captureSnapshot = snapshot, waitForNetwork = False\<rparr>)))))\<rparr>"

definition click :: "bool \<Rightarrow> Tool" where
  "click snapshot = \<lparr>
     capability = Core,
     schema = \<lparr>name = ''browser_click'', title = ''Click on element'',
       description = ''Click on an element'',
       inputSchema = [\<lparr>fieldName = ''selector'', fieldType = ZString, isOptional = False,
         describe = ''CSS selector or text to click''\<rparr>],
       toolType = Destructive\<rparr>,
     handle = (\<lambda>params.
       bind_async (call EnsureTab) (\<lambda>_.
       bind_async (attempt (get_prop params ''selector'')) (\<lambda>selector.
       bind_async (call (PageClick selector)) (\<lambda>_.
       bind_async (attempt (ToString selector)) (\<lambda>s.
       resolve \<lparr>code = [''await page.click('' @ quote s @ '');''], action = None,
         captureSnapshot = snapshot, waitForNetwork = False\<rparr>)))))\<rparr>"

definition type' :: "bool \<Rightarrow> Tool" where
  "type' snapshot = \<lparr>
     capability = Core,
     schema = \<lparr>name = ''browser_type'', title = ''Type text'',
       description = ''Type text into an input field'',
       inputSchema = [
         \<lparr>fieldName = ''selector'', fieldType = ZString, isOptional = False,
           describe = ''CSS selector for input field''\<rparr>,
         \<lparr>fieldName = ''text'', fieldType = ZString, isOptional = False,
           describe = ''Text to type''\<rparr>],
       toolType = Destructive\<rparr>,
     handle = (\<lambda>params.
       bind_async (call EnsureTab) (\<lambda>_.
       bind_async (attempt (get_prop params ''selector'')) (\<lambda>selector.
       bind_async (attempt (get_prop params ''text'')) (\<lambda>txt.
       bind_async (call (PageFill selector txt)) (\<lambda>_.
       bind_async (attempt (ToString selector)) (\<lambda>s.
       bind_async (attempt (ToString txt)) (\<lambda>t.
       resolve \<lparr>code = [''await page.fill('' @ quote s @ '', '' @ quote t @ '');''],
         action = None, captureSnapshot = snapshot, waitForNetwork = False\<rparr>)))))))\<rparr>"

text \<open>
  The mock page's \<open>screenshot\<close> gives an empty buffer, whose base64 text is empty. The
  tool ignores its factory argument: \<open>captureSnapshot\<close> is always false.
\<close>

definition screenshot :: "bool \<Rightarrow> Tool" where
  "screenshot snapshot = \<lparr>
     capability = Screenshot,
     schema = \<lparr>name = ''browser_screenshot'', title = ''Take screenshot'',
       description = ''Take a screenshot of the current page'',
       inputSchema = [\<lparr>fieldName = ''fullPage'', fieldType = ZBoolean, isOptional = True,
         describe = ''Capture full page''\<rparr>],
       toolType = ReadOnly\<rparr>,
     handle = (\<lambda>params.
       bind_async (call EnsureTab) (\<lambda>_.
       bind_async (attempt (get_prop params ''fullPage'')) (\<lambda>fullPage.
       bind_async (call (PageScreenshot (nullish_or fullPage (JBool False)))) (\<lambda>_.
       bind_async (attempt (ToString (nullish_or fullPage (JBool False)))) (\<lambda>s.
       resolve \<lparr>code = [''await page.screenshot({ fullPage: '' @ s @ '' });''],
         action = Some (resolve (ActionResult (Some [ImageContent [] ''image/png'']))),
         captureSnapshot = False, waitForNetwork = False\<rparr>)))))\<rparr>"

definition wait :: "bool \<Rightarrow> Tool" where
  "wait snapshot = \<lparr>
     capability = Wait,
     schema = \<lparr>name = ''browser_wait'', title = ''Wait for selector'',
       description = ''Wait for an element to appear'',
       inputSchema = [
         \<lparr>fieldName = ''selector'', fieldType = ZString, isOptional = False,
           describe = ''CSS selector to wait for''\<rparr>,
         \<lparr>fieldName = ''timeout'', fieldType = ZNumber, isOptional = True,
           describe = ''Timeout in milliseconds''\<rparr>],
       toolType = ReadOnly\<rparr>,
     handle = (\<lambda>params.
       bind_async (call EnsureTab) (\<lambda>_.
       bind_async (attempt (get_prop params ''selector'')) (\<lambda>selector.
       bind_async (attempt (get_prop params ''timeout'')) (\<lambda>timeout.
       bind_async (call (PageWaitForSelector selector timeout)) (\<lambda>_.
       bind_async (attempt (ToString selector)) (\<lambda>s.
       bind_async (attempt (ToString (nullish_or timeout (JNum ''30000'')))) (\<lambda>t.
       resolve \<lparr>code = [''await page.waitForSelector('' @ quote s @ '', { timeout: '' @ t
           @ '' });''],
         action = None, captureSnapshot = snapshot, waitForNetwork = False\<rparr>)))))))\<rparr>"

text \<open>\<open>goBack\<close> takes no parameter: its handler never reads the arguments.\<close>

definition goBack :: "bool \<Rightarrow> Tool" where
  "goBack snapshot = \<lparr>
     capability = History,
     schema = \<lparr>name = ''browser_navigate_back'', title = ''Go back'',
       description = ''Go back to the previous page'',
       inputSchema = [],
       toolType = ReadOnly\<rparr>,
     handle = (\<lambda>params.
       bind_async (call EnsureTab) (\<lambda>_.
       bind_async (call PageGoBack) (\<lambda>_.
       resolve \<lparr>code = [''await page.goBack();''], action = None,
         captureSnapshot = snapshot, waitForNetwork = False\<rparr>)))\<rparr>"

text \<open>The mock page's \<open>textContent\<close> gives the empty string, and \<open>text || ''\<close> keeps it.\<close>

definition getText :: "bool \<Rightarrow> Tool" where
  "getText snapshot = \<lparr>
     capability = Core,
     schema = \<lparr>name = ''browser_get_text'', title = ''Get text content'',
       description = ''Get text content of an element'',
       inputSchema = [\<lparr>fieldName = ''selector'', fieldType = ZString, isOptional = False,
         describe = ''CSS selector''\<rparr>],
       toolType = ReadOnly\<rparr>,
     handle = (\<lambda>params.
       bind_async (call EnsureTab) (\<lambda>_.
       bind_async (attempt (get_prop params ''selector'')) (\<lambda>selector.
       bind_async (call (PageTextContent selector)) (\<lambda>_.
       bind_async (attempt (ToString selector)) (\<lambda>s.
       resolve \<lparr>code = [''await page.textContent('' @ quote s @ '');''],
         action = Some (resolve (ActionResult (Some [TextContent (Some [])]))),
         captureSnapshot = False, waitForNetwork = False\<rparr>)))))\<rparr>"

definition newTab :: "bool \<Rightarrow> Tool" where
  "newTab snapshot = \<lparr>
     capability = Tabs,
     schema = \<lparr>name = ''browser_new_tab'', title = ''Open new tab'',
       description = ''Open a new browser tab'',
       inputSchema = [\<lparr>fieldName = ''url'', fieldType = ZString, isOptional = True,
         describe = ''URL to navigate to in new tab''\<rparr>],
       toolType = Destructive\<rparr>,
     handle = (\<lambda>params.
       bind_async (call EnsureTab) (\<lambda>_.
       bind_async (call NewPage) (\<lambda>_.
       bind_async (attempt (get_prop params ''url'')) (\<lambda>url.
       bind_async (if truthy url then call (NewPageGoto url) else resolve ()) (\<lambda>_.
       bind_async
         (if truthy url
          then bind_async (attempt (ToString url)) (\<lambda>s.
                 resolve (''await newPage.goto('' @ quote s @ '');''))
          else resolve []) (\<lambda>second.
       resolve \<lparr>code = filter (\<lambda>line. line \<noteq> [])
           [''const newPage = await context.newPage();'', second],
         action = None, captureSnapshot = snapshot, waitForNetwork = False\<rparr>))))))\<rparr>"

definition closeTab :: "bool \<Rightarrow> Tool" where
  "closeTab snapshot = \<lparr>
     capability = Tabs,
     schema = \<lparr>name = ''browser_close_tab'', title = ''Close tab'',
       description = ''Close a browser tab'',
       inputSchema = [\<lparr>fieldName = ''tabId'', fieldType = ZString, isOptional = False,
         describe = ''Tab ID to close''\<rparr>],
       toolType = Destructive\<rparr>,
     handle = (\<lambda>params.
       bind_async (attempt (get_prop params ''tabId'')) (\<lambda>tabId.
       bind_async (call (CloseTab tabId)) (\<lambda>_.
       resolve \<lparr>code = [''await page.close();''], action = None,
         captureSnapshot = False, waitForNetwork = False\<rparr>)))\<rparr>"

text \<open>
  The mock page's \<open>evaluate\<close> gives \<open>undefined\<close>, and \<open>JSON.stringify(undefined, null, 2)\<close>
  is \<open>undefined\<close>: the text of the item is absent.
\<close>

definition evaluate :: "bool \<Rightarrow> Tool" where
  "evaluate snapshot = \<lparr>
     capability = Console,
     schema = \<lparr>name = ''browser_evaluate'', title = ''Evaluate JavaScript'',
       description = ''Execute JavaScript in the browser context'',
       inputSchema = [\<lparr>fieldName = ''expression'', fieldType = ZString, isOptional = False,
         describe = ''JavaScript expression to evaluate''\<rparr>],
       toolType = Destructive\<rparr>,
     handle = (\<lambda>params.
       bind_async (call EnsureTab) (\<lambda>_.
       bind_async (attempt (get_prop params ''expression'')) (\<lambda>expression.
       bind_async (call (PageEvaluate expression)) (\<lambda>_.
       bind_async (attempt (ToString expression)) (\<lambda>s.
       resolve \<lparr>code = [''await page.evaluate('' @ quote s @ '');''],
         action = Some (resolve (ActionResult (Some [TextContent None]))),
         captureSnapshot = False, waitForNetwork = False\<rparr>)))))\<rparr>"

definition snapshotTools :: "Tool list" where
  "snapshotTools = [navigate True, click True, type' True, screenshot True, wait True,
     goBack True, getText True, newTab True, closeTab True, evaluate True]"

definition visionTools :: "Tool list" where
  "visionTools = [navigate False, screenshot False, wait False, goBack False,
     getText False, newTab False, closeTab False, evaluate False]"

section \<open>The server (server.ts)\<close>

text \<open>
  The fields of \<open>FullConfig\<close> that \<open>createConnection\<close> reads; both are optional, \<open>None\<close>
  is \<open>undefined\<close>.
\<close>

record FullConfig =
  vision :: "bool option"
  capabilities :: "ToolCapability list option"

text \<open>\<open>list?.includes(x)\<close>: \<open>undefined\<close>, which is falsy, when the list is \<open>undefined\<close>.\<close>

fun optIncludes :: "'a list option \<Rightarrow> 'a \<Rightarrow> bool" where
  "optIncludes None x = False"
| "optIncludes (Some xs) x = (x \<in> set xs)"

definition allTools :: "FullConfig \<Rightarrow> Tool list" where
  "allTools config = (if vision config = Some True then visionTools else snapshotTools)"

text \<open>
  The filter of \<open>createConnection\<close>. \<open>!this.config.capabilities\<close> holds for \<open>undefined\<close> only:
  an array is truthy, the empty one too.
\<close>

definition visibleTools :: "FullConfig \<Rightarrow> Tool list \<Rightarrow> Tool list" where
  "visibleTools config all =
     filter (\<lambda>tool. capabilities config = None \<or> capability tool = Core
                 \<or> optIncludes (capabilities config) (capability tool)) all"

text \<open>The result of a \<open>call tool\<close> request; \<open>isError\<close> is \<open>None\<close> where the field is absent.\<close>

record CallToolResult =
  content :: "ContentItem list"
  isError :: "bool option"

text \<open>A descriptor of the \<open>list tools\<close> response: name, description, inputSchema.\<close>

datatype 'j McpTool = McpTool string string 'j

text \<open>
  The \<open>list tools\<close> handler over the tools of the connection. \<open>zodToJsonSchema\<close> is a
  function of a library, taken as a parameter.
\<close>

definition listToolsHandler :: "(zobject \<Rightarrow> 'j) \<Rightarrow> Tool list \<Rightarrow> 'j McpTool list async" where
  "listToolsHandler zodToJsonSchema tools =
     resolve (map (\<lambda>tool. McpTool (name (schema tool)) (description (schema tool))
                             (zodToJsonSchema (inputSchema (schema tool)))) tools)"

definition notFoundResult :: "string \<Rightarrow> CallToolResult" where
  \<open>notFoundResult nm =
     \<lparr>content = [TextContent (Some (''Tool "'' @ nm @ ''" not found''))], isError = Some True\<rparr>\<close>

definition successResult :: CallToolResult where
  "successResult =
     \<lparr>content = [TextContent (Some ''Tool executed successfully'')], isError = None\<rparr>"

definition errorResult :: "fault \<Rightarrow> CallToolResult" where
  "errorResult error = \<lparr>content = [TextContent (Some (String error))], isError = Some True\<rparr>"

text \<open>\<open>actionResult?.content\<close>\<close>

fun content_of :: "ToolActionResult \<Rightarrow> ContentItem list option" where
  "content_of NoResult = None"
| "content_of (ActionResult c) = c"

text \<open>
  The body of the \<open>try\<close> block. \<open>if (result.action)\<close> holds when the field is present;
  \<open>if (actionResult?.content)\<close> holds when the content is present: an array is truthy.
\<close>

definition runTool :: "Tool \<Rightarrow> jsval \<Rightarrow> CallToolResult async" where
  "runTool tool args =
     bind_async (handle tool args) (\<lambda>result.
       case action result of
         Some act \<Rightarrow>
           bind_async act (\<lambda>actionResult.
             case content_of actionResult of
               Some c \<Rightarrow> resolve \<lparr>content = c, isError = None\<rparr>
             | None \<Rightarrow> resolve successResult)
       | None \<Rightarrow> resolve successResult)"

text \<open>
  The \<open>call tool\<close> handler over the tools of the connection, for the request's
  \<open>params.name\<close> and \<open>params.arguments\<close> (\<open>JUndefined\<close> when the request has none). Its
  value is the calls made on the context and how the handler settles: \<open>Inr\<close> a result it
  returns, \<open>Inl\<close> a fault that escapes it.
\<close>

definition callToolHandler :: "Tool list \<Rightarrow> string \<Rightarrow> jsval \<Rightarrow> CallToolResult async" where
  "callToolHandler tools nm args =
     (case find (\<lambda>t. name (schema t) = nm) tools of
        None \<Rightarrow> resolve (notFoundResult nm)
      | Some tool \<Rightarrow> try_catch (runTool tool args) errorResult)"

record Connection =
  tools :: "Tool list"

record Server =
  config :: FullConfig
  connectionList :: "Connection list"

text \<open>
  \<open>createConnection\<close>: the tools are chosen and filtered once, the handlers close over
  them, and the connection is appended to the server's list.
\<close>

definition createConnection :: "Server \<Rightarrow> Connection \<times> Server" where
  "createConnection server =
     (let connection = \<lparr>tools = visibleTools (config server) (allTools (config server))\<rparr>
      in (connection, server\<lparr>connectionList := connectionList server @ [connection]\<rparr>))"

text \<open>
  What \<open>inputSchema.safeParse\<close> of the zod library accepts, for the schemas above: an
  object in which every field that is not optional is present with a value of its type
  (unknown keys are stripped, not refused).
\<close>

fun ztype_accepts :: "ztype \<Rightarrow> jsval \<Rightarrow> bool" where
  "ztype_accepts ZString (JStr s) = True"
| "ztype_accepts ZNumber (JNum s) = (s \<noteq> ''NaN'')"
| "ztype_accepts ZBoolean (JBool b) = True"
| "ztype_accepts t v = False"

definition zfield_accepts :: "(string \<times> jsval) list \<Rightarrow> zfield \<Rightarrow> bool" where
  "zfield_accepts kvs f =
     (case map_of kvs (fieldName f) of
        None \<Rightarrow> isOptional f
      | Some v \<Rightarrow> (v = JUndefined \<and> isOptional f) \<or> ztype_accepts (fieldType f) v)"

fun zobject_accepts :: "zobject \<Rightarrow> jsval \<Rightarrow> bool" where
  "zobject_accepts fs (JObj kvs) = list_all (zfield_accepts kvs) fs"
| "zobject_accepts fs v = False"

section \<open>The exit watchdog (Server.setupExitWatchdog)\<close>

text \<open>
  The process as the watchdog sees it: the guard \<open>isExiting\<close>, the timers armed with
  \<open>setTimeout\<close> (delay in milliseconds, and the code their callback passes to
  \<open>process.exit\<close>), the connections whose \<open>close()\<close> has been called (by their index in
  the connection list), whether \<open>handleExit\<close> is suspended at its \<open>await\<close>, and the code
  \<open>process.exit\<close> was called with, if it was.
\<close>

record Process =
  isExiting :: bool
  timers :: "(nat \<times> int) list"
  closeCalled :: "nat list"
  awaiting :: bool
  exited :: "int option"

datatype signal = SIGINT | SIGTERM | StdinClose

text \<open>
  What the event loop delivers: a termination signal, the fulfilment of the
  \<open>Promise.all\<close> of the closes, or the expiry of the oldest timer.
\<close>

datatype event = Signal signal | ClosesSettled | TimerElapsed

definition setupExitWatchdog :: Process where
  "setupExitWatchdog =
     \<lparr>isExiting = False, timers = [], closeCalled = [], awaiting = False, exited = None\<rparr>"

text \<open>\<open>handleExit\<close>, up to its \<open>await\<close>.\<close>

definition handleExit :: "Server \<Rightarrow> Process \<Rightarrow> Process" where
  "handleExit server p =
     (if isExiting p then p
      else p\<lparr>isExiting := True,
             timers := timers p @ [(15000, 0)],
             closeCalled := closeCalled p @ [0..<length (connectionList server)],
             awaiting := True\<rparr>)"

text \<open>\<open>handleExit\<close>, after its \<open>await\<close>: \<open>process.exit(0)\<close>.\<close>

definition handleExit_resume :: "Process \<Rightarrow> Process" where
  "handleExit_resume p = (if awaiting p then p\<lparr>awaiting := False, exited := Some 0\<rparr> else p)"

definition timerFires :: "Process \<Rightarrow> Process" where
  "timerFires p =
     (case timers p of [] \<Rightarrow> p | (delay, c) # rest \<Rightarrow> p\<lparr>timers := rest, exited := Some c\<rparr>)"

text \<open>The three registrations share the handler; nothing runs once the process has exited.\<close>

definition step :: "Server \<Rightarrow> event \<Rightarrow> Process \<Rightarrow> Process" where
  "step server ev p =
     (if exited p \<noteq> None then p
      else case ev of
             Signal sig \<Rightarrow> handleExit server p
           | ClosesSettled \<Rightarrow> handleExit_resume p
           | TimerElapsed \<Rightarrow> timerFires p)"

section \<open>The HTTP adapter\<close>

text \<open>
  A stored session holds its transport and its connection; both are objects created
  for it, named here by the number of the creation.
\<close>

record Session =
  transport :: nat
  connection :: nat

text \<open>
  An inbound request, read to its end: \<open>req.method\<close>, the path of \<open>req.url\<close>, the headers
  (lower-case names) and the body.
\<close>

record Request =
  httpMethod :: string
  pathname :: string
  headers :: "(string \<times> string) list"
  body :: string

text \<open>
  The state of the adapter: the two session maps, the number of connections and
  transports created, the number of \<open>randomUUID()\<close> calls made, what \<open>console.error\<close>
  has logged, and the transports that have closed.
\<close>

record Adapter =
  streamableSessions :: "string \<rightharpoonup> Session"
  sseSessions :: "string \<rightharpoonup> Session"
  created :: nat
  uuidCalls :: nat
  consoleErrors :: "fault list"
  closedTransports :: "nat set"

text \<open>
  What becomes of a request: the adapter writes the response itself (status,
  content type, body), or it opens the event stream of a new transport, or it hands the
  request to a transport of the SDK, which answers it, or it does nothing at all.
\<close>

datatype Outcome =
    Replied nat string string
  | StreamOpened nat
  | HandledByTransport nat
  | NoReply

definition header :: "Request \<Rightarrow> string \<Rightarrow> string option" where
  "header req k = map_of (headers req) k"

text \<open>\<open>sessions.get(id)\<close>, where the identifier may be \<open>undefined\<close>.\<close>

fun getSession :: "(string \<rightharpoonup> Session) \<Rightarrow> string option \<Rightarrow> Session option" where
  "getSession sessions None = None"
| "getSession sessions (Some sessionId) = sessions sessionId"

text \<open>
  \<open>handleSSE\<close>. \<open>randomUUID n\<close> is the value of the call number \<open>n\<close> of \<open>randomUUID()\<close>,
  and \<open>JSON_parse\<close> is \<open>JSON.parse\<close>, \<open>None\<close> where it throws. The comment
  \<open>// Forward to transport\<close> of the source stands for no statement.
\<close>

definition handleSSE ::
  "(nat \<Rightarrow> string) \<Rightarrow> (string \<Rightarrow> jsval option) \<Rightarrow> Request \<Rightarrow> Adapter \<Rightarrow> Outcome \<times> Adapter" where
  \<open>handleSSE randomUUID JSON_parse req st =
     (if httpMethod req = ''GET'' then
        (let sessionId = randomUUID (uuidCalls st); n = created st
         in (StreamOpened n,
             st\<lparr>sseSessions := (sseSessions st)(sessionId \<mapsto> \<lparr>transport = n, connection = n\<rparr>),
                created := Suc n,
                uuidCalls := Suc (uuidCalls st)\<rparr>))
      else if httpMethod req = ''POST'' then
        (case getSession (sseSessions st) (header req ''x-session-id'') of
           None \<Rightarrow> (Replied 404 ''text/plain'' ''Session not found'', st)
         | Some session \<Rightarrow>
             (case JSON_parse (body req) of
                Some message \<Rightarrow> (Replied 200 ''application/json'' ''{"success":true}'', st)
              | None \<Rightarrow> (Replied 400 ''application/json'' ''{"error":"Invalid JSON"}'', st)))
      else (NoReply, st))\<close>

text \<open>The handlers that \<open>handleSSE\<close> sets on the transport of the session \<open>sessionId\<close>.\<close>

definition sse_onerror :: "string \<Rightarrow> fault \<Rightarrow> Adapter \<Rightarrow> Adapter" where
  "sse_onerror sessionId error st =
     st\<lparr>consoleErrors := consoleErrors st @ [error],
        sseSessions := (sseSessions st)(sessionId := None)\<rparr>"

definition sse_onclose :: "string \<Rightarrow> Adapter \<Rightarrow> Adapter" where
  "sse_onclose sessionId st = st\<lparr>sseSessions := (sseSessions st)(sessionId := None)\<rparr>"

text \<open>
  The loss of the push channel of the transport \<open>t\<close>, whose handlers were set for the
  session \<open>sessionId\<close>. A close event reports that the transport has closed; an error
  event reports an error, and closes nothing.
\<close>

datatype channel_event = TransportError fault | TransportClose

fun channelLost :: "channel_event \<Rightarrow> nat \<Rightarrow> string \<Rightarrow> Adapter \<Rightarrow> Adapter" where
  "channelLost (TransportError error) t sessionId st = sse_onerror sessionId error st"
| "channelLost TransportClose t sessionId st =
     sse_onclose sessionId (st\<lparr>closedTransports := insert t (closedTransports st)\<rparr>)"

text \<open>
  The second half of \<open>handleStreamable\<close>: a new connection and a new transport, which is
  handed the request. \<open>initializes req\<close> says whether the transport of the SDK, new and
  handed \<open>req\<close>, initialises a session: it then draws the identifier from
  \<open>sessionIdGenerator\<close> and calls \<open>onsessioninitialized\<close>, which stores the session.
\<close>

definition newStreamableSession ::
  "(nat \<Rightarrow> string) \<Rightarrow> (Request \<Rightarrow> bool) \<Rightarrow> Request \<Rightarrow> Adapter \<Rightarrow> Outcome \<times> Adapter" where
  "newStreamableSession randomUUID initializes req st =
     (let n = created st; st1 = st\<lparr>created := Suc n\<rparr>
      in if initializes req
         then (HandledByTransport n,
               st1\<lparr>streamableSessions :=
                      (streamableSessions st1)(randomUUID (uuidCalls st1)
                         \<mapsto> \<lparr>transport = n, connection = n\<rparr>),
                    uuidCalls := Suc (uuidCalls st1)\<rparr>)
         else (HandledByTransport n, st1))"

text \<open>\<open>handleStreamable\<close>. \<open>if (sessionId)\<close> fails for an absent and for an empty header.\<close>

definition handleStreamable ::
  "(nat \<Rightarrow> string) \<Rightarrow> (Request \<Rightarrow> bool) \<Rightarrow> Request \<Rightarrow> Adapter \<Rightarrow> Outcome \<times> Adapter" where
  "handleStreamable randomUUID initializes req st =
     (case header req ''mcp-session-id'' of
        Some sessionId \<Rightarrow>
          (if sessionId \<noteq> [] then
             (case streamableSessions st sessionId of
                Some session \<Rightarrow> (HandledByTransport (transport session), st)
              | None \<Rightarrow> newStreamableSession randomUUID initializes req st)
           else newStreamableSession randomUUID initializes req st)
      | None \<Rightarrow> newStreamableSession randomUUID initializes req st)"

definition startsWith :: "string \<Rightarrow> string \<Rightarrow> bool" where
  "startsWith s p = (take (length p) s = p)"

text \<open>The \<open>request\<close> listener of \<open>startHttpServer\<close> (the CORS headers are not modelled).\<close>

definition onRequest ::
  "(nat \<Rightarrow> string) \<Rightarrow> (string \<Rightarrow> jsval option) \<Rightarrow> (Request \<Rightarrow> bool) \<Rightarrow> Request \<Rightarrow> Adapter
     \<Rightarrow> Outcome \<times> Adapter" where
  \<open>onRequest randomUUID JSON_parse initializes req st =
     (if httpMethod req = ''OPTIONS'' then (Replied 200 [] [], st)
      else if pathname req = ''/sse'' \<or> startsWith (pathname req) ''/sse/''
        then handleSSE randomUUID JSON_parse req st
      else if pathname req = ''/mcp'' then handleStreamable randomUUID initializes req st
      else if pathname req = ''/health''
        then (Replied 200 ''application/json'' ''{"status":"healthy"}'', st)
      else (Replied 404 ''text/plain'' ''Not Found'', st))\<close>

definition emptyAdapter :: Adapter where
  "emptyAdapter =
     \<lparr>streamableSessions = Map.empty, sseSessions = Map.empty, created = 0, uuidCalls = 0,
      consoleErrors = [], closedTransports = {}\<rparr>"

section \<open>Inputs of the examples\<close>

text \<open>A server without connections, in snapshot mode, with a given capability list.\<close>

definition exampleServer :: "ToolCapability list option \<Rightarrow> Server" where
  "exampleServer caps = \<lparr>config = \<lparr>vision = None, capabilities = caps\<rparr>, connectionList = []\<rparr>"

text \<open>Identifiers for the calls of \<open>randomUUID()\<close>, all different.\<close>

definition exampleUUID :: "nat \<Rightarrow> string" where
  "exampleUUID n = replicate (Suc n) (CHR ''u'')"

text \<open>\<open>JSON.parse\<close> on the two bodies of the examples: \<open>{}\<close> parses, anything else does not.\<close>

definition exampleParse :: "string \<Rightarrow> jsval option" where
  "exampleParse s = (if s = ''{}'' then Some (JObj []) else None)"

text \<open>A transport that initialises a session on the requests whose body is \<open>initialize\<close>.\<close>

definition exampleInitializes :: "Request \<Rightarrow> bool" where
  "exampleInitializes req = (body req = ''initialize'')"

text \<open>A server on which three connections have been created (no capability list).\<close>

definition threeSessions :: Server where
  "threeSessions =
     snd (createConnection (snd (createConnection (snd (createConnection (exampleServer None))))))"

text \<open>A tool with another input schema: \<open>f\<close> maps the schema of each tool to the new one.\<close>

definition withInputSchema :: "(zobject \<Rightarrow> zobject) \<Rightarrow> Tool \<Rightarrow> Tool" where
  "withInputSchema f tool =
     tool\<lparr>schema := (schema tool)\<lparr>inputSchema := f (inputSchema (schema tool))\<rparr>\<rparr>"

text \<open>Requests of the examples: on the event-stream path and on the streaming path.\<close>

definition sseGet :: Request where
  "sseGet = \<lparr>httpMethod = ''GET'', pathname = ''/sse'', headers = [], body = []\<rparr>"

definition ssePost :: "string \<Rightarrow> string \<Rightarrow> Request" where
  "ssePost sessionId b =
     \<lparr>httpMethod = ''POST'', pathname = ''/sse'', headers = [(''x-session-id'', sessionId)],
      body = b\<rparr>"

definition mcpPost :: "string \<Rightarrow> string \<Rightarrow> Request" where
  "mcpPost sessionId b =
     \<lparr>httpMethod = ''POST'', pathname = ''/mcp'', headers = [(''mcp-session-id'', sessionId)],
      body = b\<rparr>"

text \<open>The adapter after one event stream has been opened: one session, \<open>u\<close>.\<close>

definition oneSseSession :: Adapter where
  "oneSseSession = snd (handleSSE exampleUUID exampleParse sseGet emptyAdapter)"

section \<open>Lemmas on the dispatcher\<close>

lemma tools_createConnection:
  "tools (fst (createConnection server)) = visibleTools (config server) (allTools (config server))"
  by (simp add: createConnection_def Let_def)

lemma length_createConnection:
  "length (connectionList (snd (createConnection server))) = Suc (length (connectionList server))"
  by (simp add: createConnection_def Let_def)

lemma tools_exampleServer_None:
  "tools (fst (createConnection (exampleServer None))) = snapshotTools"
  by (simp add: tools_createConnection exampleServer_def visibleTools_def allTools_def)

lemma tools_exampleServer_Nil:
  "tools (fst (createConnection (exampleServer (Some []))))
   = [navigate True, click True, type' True, getText True]"
  by (simp add: tools_createConnection exampleServer_def visibleTools_def allTools_def
        snapshotTools_def navigate_def click_def type'_def screenshot_def wait_def goBack_def
        getText_def newTab_def closeTab_def evaluate_def)

lemma length_core_snapshotTools:
  "length (filter (\<lambda>t. capability t = Core) snapshotTools) = 4"
  by (simp add: snapshotTools_def navigate_def click_def type'_def screenshot_def wait_def
        goBack_def getText_def newTab_def closeTab_def evaluate_def)

lemma length_core_visionTools:
  "length (filter (\<lambda>t. capability t = Core) visionTools) = 2"
  by (simp add: visionTools_def navigate_def screenshot_def wait_def goBack_def getText_def
        newTab_def closeTab_def evaluate_def)

lemma callToolHandler_found:
  "find (\<lambda>t. name (schema t) = nm) ts = Some tool \<Longrightarrow>
   callToolHandler ts nm args = try_catch (runTool tool args) errorResult"
  by (simp add: callToolHandler_def)

lemma callToolHandler_not_found:
  "find (\<lambda>t. name (schema t) = nm) ts = None \<Longrightarrow>
   callToolHandler ts nm args = ([], Inr (notFoundResult nm))"
  by (simp add: callToolHandler_def resolve_def)

lemma runTool_handle_throws:
  "snd (handle tool args) = Inl e \<Longrightarrow> snd (runTool tool args) = Inl e"
  by (cases "handle tool args") (simp add: runTool_def bind_async_def)

lemma runTool_action_throws:
  "snd (handle tool args) = Inr result \<Longrightarrow> action result = Some act \<Longrightarrow> snd act = Inl e
   \<Longrightarrow> snd (runTool tool args) = Inl e"
  by (cases "handle tool args"; cases act) (simp add: runTool_def bind_async_def)

lemma runTool_returns:
  "snd (handle tool args) = Inr result \<Longrightarrow>
   snd (runTool tool args) =
     (case action result of
        None \<Rightarrow> Inr successResult
      | Some act \<Rightarrow>
          (case snd act of
             Inl e \<Rightarrow> Inl e
           | Inr actionResult \<Rightarrow>
               (case content_of actionResult of
                  None \<Rightarrow> Inr successResult
                | Some c \<Rightarrow> Inr \<lparr>content = c, isError = None\<rparr>)))"
  by (cases "handle tool args")
     (auto simp: runTool_def bind_async_def resolve_def
           split: option.splits sum.splits prod.splits)

lemma runTool_calls:
  "\<exists>rest. fst (runTool tool args) = fst (handle tool args) @ rest"
  by (cases "handle tool args")
     (auto simp: runTool_def bind_async_def split: sum.splits prod.splits)

lemma runTool_throws_iff:
  "snd (runTool tool args) = Inl e \<longleftrightarrow>
     snd (handle tool args) = Inl e
     \<or> (\<exists>result act. snd (handle tool args) = Inr result \<and> action result = Some act
                      \<and> snd act = Inl e)"
proof (cases "snd (handle tool args)")
  case (Inl e')
  with runTool_handle_throws [OF Inl] show ?thesis by auto
next
  case (Inr result)
  with runTool_returns [OF Inr] show ?thesis
    by (auto split: option.splits sum.splits)
qed

lemma runTool_isError: "snd (runTool tool args) = Inr r \<Longrightarrow> isError r = None"
proof (cases "snd (handle tool args)")
  case (Inl e)
  assume "snd (runTool tool args) = Inr r"
  with runTool_handle_throws [OF Inl] show ?thesis by simp
next
  case (Inr result)
  assume "snd (runTool tool args) = Inr r"
  with runTool_returns [OF Inr] show ?thesis
    by (auto simp: successResult_def split: option.splits sum.splits)
qed

lemma try_catch_snd:
  "snd (try_catch m h) = Inr (case snd m of Inl e \<Rightarrow> h e | Inr r \<Rightarrow> r)"
  by (cases m) (auto simp: try_catch_def split: sum.splits)

lemma try_catch_fst: "fst (try_catch m h) = fst m"
  by (cases m) (auto simp: try_catch_def split: sum.splits)

lemma callToolHandler_settles: "\<exists>r. snd (callToolHandler ts nm args) = Inr r"
  by (cases "find (\<lambda>t. name (schema t) = nm) ts")
     (simp_all add: callToolHandler_def resolve_def try_catch_snd)

lemma find_withInputSchema:
  "find (\<lambda>t. name (schema t) = nm) (map (withInputSchema f) ts)
   = map_option (withInputSchema f) (find (\<lambda>t. name (schema t) = nm) ts)"
  by (induction ts) (simp_all add: withInputSchema_def)

lemma callToolHandler_withInputSchema:
  "callToolHandler (map (withInputSchema f) ts) nm args = callToolHandler ts nm args"
  by (cases "find (\<lambda>t. name (schema t) = nm) ts")
     (simp_all add: callToolHandler_def find_withInputSchema runTool_def withInputSchema_def)

lemma find_navigate:
  "find (\<lambda>t. name (schema t) = ''browser_navigate'') snapshotTools = Some (navigate True)"
  by (simp add: snapshotTools_def navigate_def)



lemma navigate_undefined:
  "handle (navigate True) JUndefined
   = ([EnsureTab],
      Inl (TypeError (''Cannot read properties of undefined (reading '' @ quote ''url'' @ '')'')))"
  by (simp add: navigate_def bind_async_def call_def attempt_def)
















section \<open>Lemmas on the watchdog\<close>

lemma step_signal_exiting: "isExiting p \<Longrightarrow> step server (Signal sig) p = p"
  by (simp add: step_def handleExit_def)

lemma fold_signals_exiting:
  "isExiting p \<Longrightarrow> fold (step server) (map Signal sigs) p = p"
  by (induction sigs) (simp_all add: step_signal_exiting)

lemma step_settled:
  "awaiting p \<Longrightarrow> exited p = None \<Longrightarrow> exited (step server ClosesSettled p) = Some 0"
  by (simp add: step_def handleExit_resume_def)

lemma step_timer:
  "timers p = (d, c) # rest \<Longrightarrow> exited p = None
   \<Longrightarrow> exited (step server TimerElapsed p) = Some c"
  by (simp add: step_def timerFires_def)

lemma first_signal:
  "step server (Signal sig) setupExitWatchdog
   = \<lparr>isExiting = True, timers = [(15000, 0)],
      closeCalled = [0..<length (connectionList server)], awaiting = True, exited = None\<rparr>"
  by (simp add: step_def handleExit_def setupExitWatchdog_def)

section \<open>The capability filter\<close>

text \<open>
  Claim C1. A tool of the active collection is among the tools of a new connection
  when the capability list is absent; when a list is present, the empty one too, it is
  among them iff its capability is \<open>core\<close> or a member of the list. An absent list keeps
  every tool, the empty list keeps exactly the \<open>core\<close> tools, in order, and these are
  fewer in both collections.
\<close>

theorem capability_filter_visible:
  "(tool \<in> set (tools (fst (createConnection server))) \<longleftrightarrow>
      tool \<in> set (allTools (config server)) \<and>
      (case capabilities (config server) of
         None \<Rightarrow> True
       | Some caps \<Rightarrow> capability tool = Core \<or> capability tool \<in> set caps))
   \<and> tools (fst (createConnection (server\<lparr>config := cfg\<lparr>capabilities := None\<rparr>\<rparr>)))
       = allTools cfg
   \<and> tools (fst (createConnection (server\<lparr>config := cfg\<lparr>capabilities := Some []\<rparr>\<rparr>)))
       = filter (\<lambda>t. capability t = Core) (allTools cfg)
   \<and> length (tools (fst (createConnection (server\<lparr>config := cfg\<lparr>capabilities := Some []\<rparr>\<rparr>))))
       < length (tools (fst (createConnection (server\<lparr>config := cfg\<lparr>capabilities := None\<rparr>\<rparr>))))"
proof -
  have a: "tool \<in> set (tools (fst (createConnection server))) \<longleftrightarrow>
      tool \<in> set (allTools (config server)) \<and>
      (case capabilities (config server) of
         None \<Rightarrow> True
       | Some caps \<Rightarrow> capability tool = Core \<or> capability tool \<in> set caps)"
    by (auto simp: tools_createConnection visibleTools_def split: option.splits)
  have b: "tools (fst (createConnection (server\<lparr>config := cfg\<lparr>capabilities := None\<rparr>\<rparr>)))
       = allTools cfg"
    by (simp add: tools_createConnection visibleTools_def allTools_def)
  have c: "tools (fst (createConnection (server\<lparr>config := cfg\<lparr>capabilities := Some []\<rparr>\<rparr>)))
       = filter (\<lambda>t. capability t = Core) (allTools cfg)"
    by (simp add: tools_createConnection visibleTools_def allTools_def)
  have d: "length (filter (\<lambda>t. capability t = Core) (allTools cfg)) < length (allTools cfg)"
    by (simp add: allTools_def length_core_snapshotTools length_core_visionTools)
       (simp add: snapshotTools_def visionTools_def)
  show ?thesis using a b c d by simp
qed

theorem capability_filter_visible_witness:
  "navigate True \<in> set (tools (fst (createConnection (exampleServer (Some [])))))
   \<and> screenshot True \<notin> set (tools (fst (createConnection (exampleServer (Some [])))))
   \<and> screenshot True \<in> set (tools (fst (createConnection (exampleServer (Some [Screenshot])))))
   \<and> screenshot True \<in> set (tools (fst (createConnection (exampleServer None))))"
  using capability_filter_visible [of "navigate True" "exampleServer (Some [])"]
    capability_filter_visible [of "screenshot True" "exampleServer (Some [])"]
    capability_filter_visible [of "screenshot True" "exampleServer (Some [Screenshot])"]
    capability_filter_visible [of "screenshot True" "exampleServer None"]
  by (simp add: exampleServer_def allTools_def snapshotTools_def navigate_def screenshot_def)

section \<open>The dispatcher\<close>

text \<open>
  Claim C2. For a name that no tool of the connection bears, whether a tool of the
  registry that the filter has hidden bears it or none does, \<open>call tool\<close> makes no call
  on the context and returns one text item saying that the tool was not found, with
  \<open>isError\<close> true. The response is that of a connection without any tool, whatever the
  arguments: nothing in it tells the two cases apart.
\<close>

theorem hidden_tool_not_found:
  \<open>nm \<notin> set (map (\<lambda>t. name (schema t)) ts) \<Longrightarrow>
   callToolHandler ts nm args =
     ([], Inr \<lparr>content = [TextContent (Some (''Tool "'' @ nm @ ''" not found''))],
               isError = Some True\<rparr>)
   \<and> callToolHandler ts nm args = callToolHandler [] nm args'\<close>
proof -
  assume "nm \<notin> set (map (\<lambda>t. name (schema t)) ts)"
  then have "find (\<lambda>t. name (schema t) = nm) ts = None"
    by (auto simp: find_None_iff)
  then show ?thesis
    by (simp add: callToolHandler_not_found notFoundResult_def)
qed

theorem hidden_tool_not_found_witness:
  \<open>''browser_screenshot'' \<in> set (map (\<lambda>t. name (schema t)) snapshotTools)
   \<and> callToolHandler (tools (fst (createConnection (exampleServer (Some [])))))
        ''browser_screenshot'' (JObj [])
      = ([], Inr \<lparr>content = [TextContent (Some ''Tool "browser_screenshot" not found'')],
                  isError = Some True\<rparr>)
   \<and> callToolHandler (tools (fst (createConnection (exampleServer (Some [])))))
        ''no_such_tool'' (JObj [])
      = ([], Inr \<lparr>content = [TextContent (Some ''Tool "no_such_tool" not found'')],
                  isError = Some True\<rparr>)\<close>
proof -
  let ?ts = "tools (fst (createConnection (exampleServer (Some []))))"
  have names: "map (\<lambda>t. name (schema t)) ?ts
     = [''browser_navigate'', ''browser_click'', ''browser_type'', ''browser_get_text'']"
    by (simp add: tools_exampleServer_Nil navigate_def click_def type'_def getText_def)
  have hidden: "''browser_screenshot'' \<notin> set (map (\<lambda>t. name (schema t)) ?ts)"
    and unknown: "''no_such_tool'' \<notin> set (map (\<lambda>t. name (schema t)) ?ts)"
    by (simp_all add: names)
  have registered: "''browser_screenshot'' \<in> set (map (\<lambda>t. name (schema t)) snapshotTools)"
    by (simp add: snapshotTools_def screenshot_def)
  show ?thesis
    using hidden_tool_not_found [OF hidden, of "JObj []"]
      hidden_tool_not_found [OF unknown, of "JObj []"] registered
    by simp
qed

text \<open>
  Claim C3, as the code has it. For a tool of the connection \<open>call tool\<close> validates
  nothing: the handle is invoked with the arguments as they came (its calls on the
  context are made), and the outcome is the same whatever the input schemas of the tools
  are. The handler always returns a result, never a fault: one with \<open>isError\<close> true
  exactly when the handle or its action throws, and one without \<open>isError\<close> otherwise.
\<close>

theorem arguments_not_validated:
  assumes "find (\<lambda>t. name (schema t) = nm) ts = Some tool"
  shows "(\<exists>rest. fst (callToolHandler ts nm args) = fst (handle tool args) @ rest)
       \<and> callToolHandler (map (withInputSchema f) ts) nm args = callToolHandler ts nm args
       \<and> (\<exists>r. snd (callToolHandler ts nm args) = Inr r
             \<and> (isError r = Some True \<longleftrightarrow>
                  (\<exists>e. snd (handle tool args) = Inl e
                       \<or> (\<exists>result act. snd (handle tool args) = Inr result
                             \<and> action result = Some act \<and> snd act = Inl e)))
             \<and> (isError r = Some True \<or> isError r = None))"
proof -
  have calls: "\<exists>rest. fst (callToolHandler ts nm args) = fst (handle tool args) @ rest"
    by (simp add: callToolHandler_found [OF assms] try_catch_fst runTool_calls)
  have res: "snd (callToolHandler ts nm args)
       = Inr (case snd (runTool tool args) of Inl e \<Rightarrow> errorResult e | Inr r \<Rightarrow> r)"
    by (simp add: callToolHandler_found [OF assms] try_catch_snd)
  have outcome: "\<exists>r. snd (callToolHandler ts nm args) = Inr r
             \<and> (isError r = Some True \<longleftrightarrow> (\<exists>e. snd (runTool tool args) = Inl e))
             \<and> (isError r = Some True \<or> isError r = None)"
  proof (cases "snd (runTool tool args)")
    case (Inl e)
    with res show ?thesis by (auto simp: errorResult_def)
  next
    case (Inr r)
    with res runTool_isError [OF Inr] show ?thesis by auto
  qed
  show ?thesis
    using calls outcome callToolHandler_withInputSchema [of f ts nm args]
    by (simp only: runTool_throws_iff)
qed

theorem arguments_not_validated_witness:
  "(\<exists>rest. fst (callToolHandler snapshotTools ''browser_navigate'' JUndefined)
            = [EnsureTab] @ rest)
   \<and> (\<exists>r. snd (callToolHandler snapshotTools ''browser_navigate'' JUndefined) = Inr r
           \<and> isError r = Some True)"
  using arguments_not_validated [OF find_navigate, of JUndefined]
  by (auto simp: navigate_undefined)

text \<open>
  Claim C3 fails as stated: \<open>browser_navigate\<close> requires a string \<open>url\<close>, the empty
  object violates its schema, and yet the handle is invoked with it (the mock navigates
  to \<open>undefined\<close>) and the response is the success payload.
\<close>

theorem arguments_not_validated_counterexample:
  "\<not> zobject_accepts (inputSchema (schema (navigate True))) (JObj [])
   \<and> find (\<lambda>t. name (schema t) = ''browser_navigate'')
        (tools (fst (createConnection (exampleServer None)))) = Some (navigate True)
   \<and> callToolHandler (tools (fst (createConnection (exampleServer None))))
        ''browser_navigate'' (JObj [])
      = ([EnsureTab, TabNavigate JUndefined],
         Inr \<lparr>content = [TextContent (Some ''Tool executed successfully'')], isError = None\<rparr>)"
proof -
  have a: "\<not> zobject_accepts (inputSchema (schema (navigate True))) (JObj [])"
    by (simp add: navigate_def zfield_accepts_def)
  have b: "find (\<lambda>t. name (schema t) = ''browser_navigate'')
        (tools (fst (createConnection (exampleServer None)))) = Some (navigate True)"
    by (simp add: tools_exampleServer_None find_navigate)
  have c: "callToolHandler snapshotTools ''browser_navigate'' (JObj [])
      = ([EnsureTab, TabNavigate JUndefined],
         Inr \<lparr>content = [TextContent (Some ''Tool executed successfully'')], isError = None\<rparr>)"
    by (simp add: callToolHandler_found [OF find_navigate] runTool_def navigate_def
          try_catch_def bind_async_def call_def attempt_def resolve_def successResult_def)
  show ?thesis using a b c by (simp add: tools_exampleServer_None)
qed

text \<open>
  Claim C4. When the handle of the tool throws, or the action of its result does, \<open>call
  tool\<close> returns a result whose one text item is \<open>String\<close> of the fault, with \<open>isError\<close>
  true. No fault escapes the handler, for any tools, name and arguments.
\<close>

theorem executor_fault_caught:
  assumes "find (\<lambda>t. name (schema t) = nm) ts = Some tool"
    and "snd (handle tool args) = Inl e
         \<or> (\<exists>result act. snd (handle tool args) = Inr result \<and> action result = Some act
                          \<and> snd act = Inl e)"
  shows "snd (callToolHandler ts nm args)
           = Inr \<lparr>content = [TextContent (Some (String e))], isError = Some True\<rparr>
         \<and> (\<exists>r. snd (callToolHandler ts' nm' args') = Inr r)"
proof -
  from assms(2) have "snd (runTool tool args) = Inl e"
    by (simp only: runTool_throws_iff)
  then have "snd (callToolHandler ts nm args) = Inr (errorResult e)"
    by (simp add: callToolHandler_found [OF assms(1)] try_catch_snd)
  then show ?thesis
    by (simp add: errorResult_def callToolHandler_settles)
qed

theorem executor_fault_caught_witness:
  "snd (callToolHandler snapshotTools ''browser_navigate'' JUndefined)
     = Inr \<lparr>content = [TextContent (Some
          ''TypeError: Cannot read properties of undefined (reading 'url')'')],
        isError = Some True\<rparr>"
proof -
  have thrown: "snd (handle (navigate True) JUndefined)
     = Inl (TypeError (''Cannot read properties of undefined (reading '' @ quote ''url'' @ '')''))"
    by (simp add: navigate_undefined)
  show ?thesis
    using executor_fault_caught [OF find_navigate disjI1, OF thrown]
    by (simp add: TypeError_def quote_def apostrophe_def)
qed

text \<open>
  Claim C8. \<open>list tools\<close> makes no call on the context and returns one descriptor for
  each tool of the connection, in the order of the tools: the name, the description and
  the converted input schema of that tool.
\<close>

theorem list_tools_descriptors:
  "fst (listToolsHandler zodToJsonSchema ts) = []
   \<and> (\<exists>ds. snd (listToolsHandler zodToJsonSchema ts) = Inr ds
         \<and> length ds = length ts
         \<and> (\<forall>i < length ts.
               ds ! i = McpTool (name (schema (ts ! i))) (description (schema (ts ! i)))
                          (zodToJsonSchema (inputSchema (schema (ts ! i))))))"
  by (simp add: listToolsHandler_def resolve_def)

theorem list_tools_descriptors_witness:
  "listToolsHandler (map fieldName) (tools (fst (createConnection (exampleServer (Some [])))))
   = ([], Inr [McpTool ''browser_navigate'' ''Navigate to a URL'' [''url''],
               McpTool ''browser_click'' ''Click on an element'' [''selector''],
               McpTool ''browser_type'' ''Type text into an input field'' [''selector'', ''text''],
               McpTool ''browser_get_text'' ''Get text content of an element'' [''selector'']])"
proof -
  let ?ts = "tools (fst (createConnection (exampleServer (Some []))))"
  have ts: "?ts = [navigate True, click True, type' True, getText True]"
    by (rule tools_exampleServer_Nil)
  from list_tools_descriptors [of "map fieldName" ?ts]
  obtain ds where ds: "snd (listToolsHandler (map fieldName) ?ts) = Inr ds"
    "length ds = length ?ts"
    "\<forall>i < length ?ts. ds ! i = McpTool (name (schema (?ts ! i))) (description (schema (?ts ! i)))
                          (map fieldName (inputSchema (schema (?ts ! i))))"
    and calls: "fst (listToolsHandler (map fieldName) ?ts) = []"
    by blast
  from ds(2) have len: "length ds = 4" by (simp add: ts)
  from ds(3) have "ds ! 0 = McpTool ''browser_navigate'' ''Navigate to a URL'' [''url'']"
    "ds ! 1 = McpTool ''browser_click'' ''Click on an element'' [''selector'']"
    "ds ! 2 = McpTool ''browser_type'' ''Type text into an input field'' [''selector'', ''text'']"
    "ds ! 3 = McpTool ''browser_get_text'' ''Get text content of an element'' [''selector'']"
    by (simp_all add: ts navigate_def click_def type'_def getText_def)
  with len have "ds = [McpTool ''browser_navigate'' ''Navigate to a URL'' [''url''],
               McpTool ''browser_click'' ''Click on an element'' [''selector''],
               McpTool ''browser_type'' ''Type text into an input field'' [''selector'', ''text''],
               McpTool ''browser_get_text'' ''Get text content of an element'' [''selector'']]"
    by (auto simp: list_eq_iff_nth_eq less_Suc_eq numeral_eq_Suc)
  with ds(1) calls show ?thesis by (simp add: prod_eq_iff)
qed



section \<open>The watchdog\<close>

text \<open>
  Claim C6. On the first termination signal, whichever of the three it is, the guard
  is set, one timer of 15000 ms whose callback exits with code 0 is armed, \<open>close()\<close> is
  called on every connection of the list, and the handler waits (the process has not
  exited). When the closes have all settled the process exits with code 0; when the
  timer expires first, it exits as well. Any signals that arrive while the handler waits
  change nothing, and the exit follows all the same.
\<close>

theorem watchdog_first_signal:
  "isExiting (step server (Signal sig) setupExitWatchdog)
   \<and> timers (step server (Signal sig) setupExitWatchdog) = [(15000, 0)]
   \<and> closeCalled (step server (Signal sig) setupExitWatchdog)
       = [0..<length (connectionList server)]
   \<and> awaiting (step server (Signal sig) setupExitWatchdog)
   \<and> exited (step server (Signal sig) setupExitWatchdog) = None
   \<and> exited (step server ClosesSettled (step server (Signal sig) setupExitWatchdog)) = Some 0
   \<and> exited (step server TimerElapsed (step server (Signal sig) setupExitWatchdog)) = Some 0
   \<and> fold (step server) (map Signal sigs) (step server (Signal sig) setupExitWatchdog)
       = step server (Signal sig) setupExitWatchdog
   \<and> exited (step server ClosesSettled
        (fold (step server) (map Signal sigs) (step server (Signal sig) setupExitWatchdog)))
       = Some 0"
proof -
  let ?p1 = "step server (Signal sig) setupExitWatchdog"
  have guard: "fold (step server) (map Signal sigs) ?p1 = ?p1"
    by (rule fold_signals_exiting) (simp add: first_signal)
  have settled: "exited (step server ClosesSettled ?p1) = Some 0"
    by (rule step_settled) (simp_all add: first_signal)
  have timer: "exited (step server TimerElapsed ?p1) = Some 0"
    by (rule step_timer [where d = 15000 and rest = "[]"]) (simp_all add: first_signal)
  have fields: "isExiting ?p1" "timers ?p1 = [(15000, 0)]"
    "closeCalled ?p1 = [0..<length (connectionList server)]" "awaiting ?p1" "exited ?p1 = None"
    by (simp_all add: first_signal)
  show ?thesis
    unfolding guard using settled timer fields by blast
qed

theorem watchdog_first_signal_witness:
  "closeCalled (step threeSessions (Signal SIGTERM) setupExitWatchdog) = [0, 1, 2]
   \<and> timers (step threeSessions (Signal SIGTERM) setupExitWatchdog) = [(15000, 0)]
   \<and> exited (step threeSessions (Signal SIGTERM) setupExitWatchdog) = None
   \<and> exited (fold (step threeSessions)
        [Signal SIGTERM, Signal SIGINT, Signal StdinClose, ClosesSettled] setupExitWatchdog)
      = Some 0
   \<and> exited (fold (step threeSessions)
        [Signal SIGTERM, Signal SIGINT, TimerElapsed] setupExitWatchdog)
      = Some 0"
proof -
  have len: "[0..<length (connectionList threeSessions)] = [0, 1, 2]"
    by (simp add: threeSessions_def length_createConnection exampleServer_def upt_rec)
  have f: "fold (step threeSessions)
             [Signal SIGTERM, Signal SIGINT, Signal StdinClose, ClosesSettled] setupExitWatchdog
           = step threeSessions ClosesSettled
               (fold (step threeSessions) (map Signal [SIGINT, StdinClose])
                 (step threeSessions (Signal SIGTERM) setupExitWatchdog))"
    by simp
  have g: "fold (step threeSessions) [Signal SIGTERM, Signal SIGINT, TimerElapsed]
             setupExitWatchdog
           = step threeSessions TimerElapsed
               (fold (step threeSessions) (map Signal [SIGINT])
                 (step threeSessions (Signal SIGTERM) setupExitWatchdog))"
    by simp
  show ?thesis
    unfolding f g
    using watchdog_first_signal [of threeSessions SIGTERM "[SIGINT, StdinClose]"]
      watchdog_first_signal [of threeSessions SIGTERM "[SIGINT]"]
    by (simp add: len)
qed

section \<open>The HTTP adapter: lemmas\<close>

lemma onRequest_mcp:
  "pathname req = ''/mcp'' \<Longrightarrow> httpMethod req \<noteq> ''OPTIONS'' \<Longrightarrow>
   onRequest R P I req st = handleStreamable R I req st"
  by (simp add: onRequest_def startsWith_def)

lemma onRequest_sse:
  "pathname req = ''/sse'' \<Longrightarrow> httpMethod req \<noteq> ''OPTIONS'' \<Longrightarrow>
   onRequest R P I req st = handleSSE R P req st"
  by (simp add: onRequest_def)

lemma handleStreamable_unknown:
  "header req ''mcp-session-id'' = Some sessionId \<Longrightarrow> streamableSessions st sessionId = None
   \<Longrightarrow> handleStreamable R I req st = newStreamableSession R I req st"
  by (simp add: handleStreamable_def)

lemma handleSSE_post_unknown:
  "httpMethod req = ''POST'' \<Longrightarrow> getSession (sseSessions st) (header req ''x-session-id'') = None
   \<Longrightarrow> handleSSE R P req st = (Replied 404 ''text/plain'' ''Session not found'', st)"
  by (simp add: handleSSE_def)

lemma handleSSE_post_known:
  \<open>httpMethod req = ''POST'' \<Longrightarrow> header req ''x-session-id'' = Some sessionId
   \<Longrightarrow> sseSessions st sessionId = Some session
   \<Longrightarrow> handleSSE R P req st =
       (case P (body req) of
          Some message \<Rightarrow> (Replied 200 ''application/json'' ''{"success":true}'', st)
        | None \<Rightarrow> (Replied 400 ''application/json'' ''{"error":"Invalid JSON"}'', st))\<close>
  by (simp add: handleSSE_def)

lemma oneSseSession_eq:
  "oneSseSession = emptyAdapter\<lparr>sseSessions := [''u'' \<mapsto> \<lparr>transport = 0, connection = 0\<rparr>],
      created := 1, uuidCalls := 1\<rparr>"
  by (simp add: oneSseSession_def handleSSE_def sseGet_def emptyAdapter_def exampleUUID_def
        Let_def)

section \<open>The HTTP adapter: sessions\<close>

text \<open>
  Claim C5, as the code has it. A request on the streaming path whose session
  identifier is not in the store is not answered by the adapter: it is treated as a
  request without identifier. A new connection and a new transport are created, the
  request is handed to that transport, and a session is stored when the transport
  initialises one. On the event-stream path, a POST whose identifier is unknown or
  absent is answered 404 \<open>Session not found\<close>, and the state is unchanged.
\<close>

theorem unknown_session_id:
  assumes "pathname req = ''/mcp''" and "httpMethod req \<noteq> ''OPTIONS''"
    and "header req ''mcp-session-id'' = Some sessionId"
    and "streamableSessions st sessionId = None"
    and "pathname req' = ''/sse''" and "httpMethod req' = ''POST''"
    and "getSession (sseSessions st) (header req' ''x-session-id'') = None"
  shows "onRequest R P I req st = newStreamableSession R I req st
       \<and> fst (onRequest R P I req st) = HandledByTransport (created st)
       \<and> created (snd (onRequest R P I req st)) = Suc (created st)
       \<and> streamableSessions (snd (onRequest R P I req st))
           = (if I req
              then (streamableSessions st)(R (uuidCalls st)
                     \<mapsto> \<lparr>transport = created st, connection = created st\<rparr>)
              else streamableSessions st)
       \<and> onRequest R P I req' st = (Replied 404 ''text/plain'' ''Session not found'', st)"
proof -
  have a: "onRequest R P I req st = newStreamableSession R I req st"
    by (simp add: onRequest_mcp [OF assms(1,2)] handleStreamable_unknown [OF assms(3,4)])
  have b: "onRequest R P I req' st = (Replied 404 ''text/plain'' ''Session not found'', st)"
    using assms(5,6,7) by (simp add: onRequest_sse handleSSE_post_unknown)
  show ?thesis
    unfolding a b by (simp add: newStreamableSession_def Let_def)
qed

theorem unknown_session_id_witness:
  "onRequest exampleUUID exampleParse exampleInitializes (mcpPost ''ghost'' ''{}'') emptyAdapter
     = (HandledByTransport 0, emptyAdapter\<lparr>created := 1\<rparr>)
   \<and> onRequest exampleUUID exampleParse exampleInitializes (ssePost ''ghost'' ''{}'') emptyAdapter
     = (Replied 404 ''text/plain'' ''Session not found'', emptyAdapter)"
proof -
  have 1: "pathname (mcpPost ''ghost'' ''{}'') = ''/mcp''"
    and 2: "httpMethod (mcpPost ''ghost'' ''{}'') \<noteq> ''OPTIONS''"
    and 3: "header (mcpPost ''ghost'' ''{}'') ''mcp-session-id'' = Some ''ghost''"
    and 4: "streamableSessions emptyAdapter ''ghost'' = None"
    and 5: "pathname (ssePost ''ghost'' ''{}'') = ''/sse''"
    and 6: "httpMethod (ssePost ''ghost'' ''{}'') = ''POST''"
    and 7: "getSession (sseSessions emptyAdapter) (header (ssePost ''ghost'' ''{}'') ''x-session-id'')
            = None"
    by (simp_all add: mcpPost_def ssePost_def header_def emptyAdapter_def)
  have n: "newStreamableSession exampleUUID exampleInitializes (mcpPost ''ghost'' ''{}'') emptyAdapter
     = (HandledByTransport 0, emptyAdapter\<lparr>created := 1\<rparr>)"
    by (simp add: newStreamableSession_def Let_def exampleInitializes_def mcpPost_def
          emptyAdapter_def)
  show ?thesis
    using unknown_session_id [OF 1 2 3 4 5 6 7, where R = exampleUUID and P = exampleParse
        and I = exampleInitializes]
    by (simp add: n)
qed

text \<open>
  Claim C5 fails as stated: on an empty store, an initialising request on the
  streaming path that carries the identifier \<open>ghost\<close> is not rejected. It is handed to a
  new transport, and a new session is stored, under a new identifier.
\<close>

theorem unknown_session_id_counterexample:
  "streamableSessions emptyAdapter ''ghost'' = None
   \<and> fst (onRequest exampleUUID exampleParse exampleInitializes
           (mcpPost ''ghost'' ''initialize'') emptyAdapter) = HandledByTransport 0
   \<and> created (snd (onRequest exampleUUID exampleParse exampleInitializes
           (mcpPost ''ghost'' ''initialize'') emptyAdapter)) = 1
   \<and> streamableSessions (snd (onRequest exampleUUID exampleParse exampleInitializes
           (mcpPost ''ghost'' ''initialize'') emptyAdapter)) ''u''
       = Some \<lparr>transport = 0, connection = 0\<rparr>"
  by (simp add: onRequest_def startsWith_def handleStreamable_def newStreamableSession_def
        header_def mcpPost_def emptyAdapter_def exampleUUID_def exampleInitializes_def Let_def)

text \<open>
  Claim C7, as the code has it. When the push channel of an event-stream session is
  lost, by an error event or by a close event of its transport, the session is removed
  from the store, the other sessions stay, and a later POST that carries its identifier
  is answered 404. After a close event the transport is closed, which is what the event
  reports. On an error event the handler closes nothing: the transports that are closed
  are those that were.
\<close>

theorem channel_lost_removes_session:
  assumes "sseSessions st sessionId = Some session"
  shows "sseSessions (channelLost ev (transport session) sessionId st) sessionId = None
     \<and> (\<forall>other. other \<noteq> sessionId \<longrightarrow>
          sseSessions (channelLost ev (transport session) sessionId st) other
            = sseSessions st other)
     \<and> handleSSE R P (ssePost sessionId b) (channelLost ev (transport session) sessionId st)
         = (Replied 404 ''text/plain'' ''Session not found'',
            channelLost ev (transport session) sessionId st)
     \<and> closedTransports (channelLost ev (transport session) sessionId st)
         = (case ev of
              TransportClose \<Rightarrow> insert (transport session) (closedTransports st)
            | TransportError error \<Rightarrow> closedTransports st)"
  by (cases ev)
     (simp_all add: sse_onerror_def sse_onclose_def handleSSE_def ssePost_def header_def)

theorem channel_lost_removes_session_witness:
  "sseSessions (channelLost TransportClose 0 ''u'' oneSseSession) ''u'' = None
   \<and> 0 \<in> closedTransports (channelLost TransportClose 0 ''u'' oneSseSession)
   \<and> sseSessions (channelLost (TransportError (ErrorObject ''Error'' ''write EPIPE'')) 0 ''u''
        oneSseSession) ''u'' = None
   \<and> fst (handleSSE exampleUUID exampleParse (ssePost ''u'' ''{}'')
        (channelLost (TransportError (ErrorObject ''Error'' ''write EPIPE'')) 0 ''u''
          oneSseSession))
      = Replied 404 ''text/plain'' ''Session not found''"
proof -
  have s: "sseSessions oneSseSession ''u'' = Some \<lparr>transport = 0, connection = 0\<rparr>"
    by (simp add: oneSseSession_eq)
  show ?thesis
    using channel_lost_removes_session [OF s, where ev = TransportClose and R = exampleUUID
          and P = exampleParse and b = "''{}''"]
      channel_lost_removes_session [OF s,
          where ev = "TransportError (ErrorObject ''Error'' ''write EPIPE'')"
          and R = exampleUUID and P = exampleParse and b = "''{}''"]
    by simp
qed

text \<open>
  Claim C7 fails as stated on an error event: the session \<open>u\<close> is bound to the
  transport 0, and after the error the transport is not among the closed ones.
\<close>

theorem channel_lost_removes_session_counterexample:
  "sseSessions oneSseSession ''u'' = Some \<lparr>transport = 0, connection = 0\<rparr>
   \<and> 0 \<notin> closedTransports
        (channelLost (TransportError (ErrorObject ''Error'' ''write EPIPE'')) 0 ''u'' oneSseSession)"
  by (simp add: oneSseSession_eq sse_onerror_def emptyAdapter_def)

text \<open>
  Claim C10. A POST on the event-stream path with the identifier of a stored session
  is answered 200 with the body \<open>{"success":true}\<close> when its body parses as JSON, and 400
  with the body \<open>{"error":"Invalid JSON"}\<close> when it does not. In both cases the state of the
  adapter is what it was, and the request is handed to no transport.
\<close>

theorem sse_post_acknowledged:
  assumes "httpMethod req = ''POST''" and "header req ''x-session-id'' = Some sessionId"
    and "sseSessions st sessionId = Some session"
  shows \<open>handleSSE R P req st =
       (case P (body req) of
          Some message \<Rightarrow> (Replied 200 ''application/json'' ''{"success":true}'', st)
        | None \<Rightarrow> (Replied 400 ''application/json'' ''{"error":"Invalid JSON"}'', st))
     \<and> snd (handleSSE R P req st) = st
     \<and> (\<forall>t. fst (handleSSE R P req st) \<noteq> HandledByTransport t)\<close>
  by (simp add: handleSSE_post_known [OF assms] split: option.splits)

theorem sse_post_acknowledged_witness:
  \<open>handleSSE exampleUUID exampleParse (ssePost ''u'' ''{}'') oneSseSession
     = (Replied 200 ''application/json'' ''{"success":true}'', oneSseSession)
   \<and> handleSSE exampleUUID exampleParse (ssePost ''u'' ''{'') oneSseSession
     = (Replied 400 ''application/json'' ''{"error":"Invalid JSON"}'', oneSseSession)\<close>
proof -
  have s: "sseSessions oneSseSession ''u'' = Some \<lparr>transport = 0, connection = 0\<rparr>"
    by (simp add: oneSseSession_eq)
  have 1: "httpMethod (ssePost ''u'' b) = ''POST''"
    and 2: "header (ssePost ''u'' b) ''x-session-id'' = Some ''u''" for b
    by (simp_all add: ssePost_def header_def)
  show ?thesis
    using sse_post_acknowledged [OF 1 [of "''{}''"] 2 [of "''{}''"] s,
          where R = exampleUUID and P = exampleParse]
      sse_post_acknowledged [OF 1 [of "''{''"] 2 [of "''{''"] s,
          where R = exampleUUID and P = exampleParse]
    by (simp add: exampleParse_def ssePost_def)
qed

end
